theory Spec2Isabelle
  imports Main
begin

section \<open>JavaScript values used by the client\<close>

text \<open>
  Numbers of the configuration, attempt counters and durations are integers. The one
  place where the client can meet a number that is not an integer is the result of
  \<open>parseInt\<close>, which is \<open>NaN\<close> when the text does not start with digits.
  Strings are lists of bytes (their UTF-8 encoding).
\<close>

datatype js_number = Number int | NaN

text \<open>\<open>a || b\<close> on numbers: \<open>0\<close> and \<open>NaN\<close> are falsy.\<close>

definition or_number :: "js_number \<Rightarrow> int \<Rightarrow> int" where
  "or_number a b = (case a of NaN \<Rightarrow> b | Number n \<Rightarrow> if n = 0 then b else n)"

text \<open>An optional string is falsy when it is absent or empty.\<close>

definition falsy_string :: "string option \<Rightarrow> bool" where
  "falsy_string a = (case a of None \<Rightarrow> True | Some s \<Rightarrow> s = [])"

text \<open>\<open>a || b\<close> on an optional string.\<close>

definition or_string :: "string option \<Rightarrow> string \<Rightarrow> string" where
  "or_string a b = (if falsy_string a then b else the a)"

text \<open>An optional integer is falsy when it is absent or 0.\<close>

definition falsy_int :: "int option \<Rightarrow> bool" where
  "falsy_int a = (case a of None \<Rightarrow> True | Some n \<Rightarrow> n = 0)"

text \<open>\<open>a || b\<close> on an optional integer.\<close>

definition or_int :: "int option \<Rightarrow> int \<Rightarrow> int" where
  "or_int a b = (if falsy_int a then b else the a)"

text \<open>\<open>a ?? b\<close>: only an absent value takes the default.\<close>

definition nullish :: "'a option \<Rightarrow> 'a \<Rightarrow> 'a" where
  "nullish a b = (case a of None \<Rightarrow> b | Some x \<Rightarrow> x)"

text \<open>Decimal printing of integers, as template literals and \<open>toString()\<close> do.\<close>

fun show_nat :: "nat \<Rightarrow> string" where
  "show_nat n =
     (if n < 10 then [''0123456789'' ! n]
      else show_nat (n div 10) @ [''0123456789'' ! (n mod 10)])"

declare show_nat.simps [simp del]

definition show_int :: "int \<Rightarrow> string" where
  "show_int i = (if i < 0 then CHR ''-'' # show_nat (nat (- i)) else show_nat (nat i))"

text \<open>
  \<open>parseInt(s, 10)\<close>: leading white space is skipped, one sign is read, then the
  longest run of decimal digits; with no digit the result is \<open>NaN\<close>.
\<close>

definition is_space :: "char \<Rightarrow> bool" where
  "is_space c = (c \<in> set [CHR '' '', CHR 0x09, CHR 0x0A, CHR 0x0B, CHR 0x0C, CHR 0x0D])"

definition is_digit :: "char \<Rightarrow> bool" where
  "is_digit c = (c \<in> set ''0123456789'')"

definition digit_value :: "char \<Rightarrow> int" where
  "digit_value c = int (of_char c) - 48"

definition parseInt :: "string \<Rightarrow> js_number" where
  "parseInt s =
     (let t = dropWhile is_space s;
          negative = (t \<noteq> [] \<and> hd t = CHR ''-'');
          u = (if t \<noteq> [] \<and> (hd t = CHR ''-'' \<or> hd t = CHR ''+'') then tl t else t);
          ds = takeWhile is_digit u
      in if ds = [] then NaN
         else Number ((if negative then - 1 else 1) * foldl (\<lambda>a c. 10 * a + digit_value c) 0 ds))"

section \<open>Error taxonomy (errors.ts)\<close>

text \<open>
  The class of an error value is its \<open>name\<close>; every class extends
  \<open>EmailVerifyError\<close> and carries its fields. Only \<open>RateLimitError\<close> has a
  \<open>retryAfter\<close> field. A constructor argument with a default is optional.
\<close>

datatype error_name =
    EmailVerifyErrorName
  | AuthenticationErrorName
  | RateLimitErrorName
  | ValidationErrorName
  | InsufficientCreditsErrorName
  | NotFoundErrorName
  | TimeoutErrorName

record error =
  name :: error_name
  message :: string
  code :: string
  statusCode :: int
  details :: "string option"
  retryAfter :: "js_number option"

definition EmailVerifyError :: "string \<Rightarrow> string \<Rightarrow> int \<Rightarrow> string option \<Rightarrow> error" where
  "EmailVerifyError msg c sc d =
     \<lparr>name = EmailVerifyErrorName, message = msg, code = c, statusCode = sc,
      details = d, retryAfter = None\<rparr>"

definition AuthenticationError :: "string option \<Rightarrow> error" where
  "AuthenticationError msg =
     (EmailVerifyError (nullish msg ''Invalid or missing API key'') ''INVALID_API_KEY'' 401 None)
       \<lparr>name := AuthenticationErrorName\<rparr>"

definition RateLimitError :: "string option \<Rightarrow> js_number option \<Rightarrow> error" where
  "RateLimitError msg ra =
     (EmailVerifyError (nullish msg ''Rate limit exceeded'') ''RATE_LIMIT_EXCEEDED'' 429 None)
       \<lparr>name := RateLimitErrorName, retryAfter := Some (nullish ra (Number 0))\<rparr>"

definition ValidationError :: "string \<Rightarrow> string option \<Rightarrow> error" where
  "ValidationError msg d =
     (EmailVerifyError msg ''INVALID_REQUEST'' 400 d) \<lparr>name := ValidationErrorName\<rparr>"

definition InsufficientCreditsError :: "string option \<Rightarrow> error" where
  "InsufficientCreditsError msg =
     (EmailVerifyError (nullish msg ''Insufficient credits'') ''INSUFFICIENT_CREDITS'' 403 None)
       \<lparr>name := InsufficientCreditsErrorName\<rparr>"

definition NotFoundError :: "string option \<Rightarrow> error" where
  "NotFoundError msg =
     (EmailVerifyError (nullish msg ''Resource not found'') ''NOT_FOUND'' 404 None)
       \<lparr>name := NotFoundErrorName\<rparr>"

definition TimeoutError :: "string option \<Rightarrow> error" where
  "TimeoutError msg =
     (EmailVerifyError (nullish msg ''Request timed out'') ''TIMEOUT'' 504 None)
       \<lparr>name := TimeoutErrorName\<rparr>"

section \<open>Client construction (client.ts)\<close>

record EmailVerifyConfig =
  config_apiKey :: "string option"
  config_baseUrl :: "string option"
  config_timeout :: "int option"
  config_retries :: "int option"

record EmailVerify =
  apiKey :: string
  baseUrl :: string
  timeout :: int
  retries :: int

definition DEFAULT_BASE_URL :: string where
  "DEFAULT_BASE_URL = ''https://api.emailverify.ai/v1''"

definition DEFAULT_TIMEOUT :: int where
  "DEFAULT_TIMEOUT = 30000"

definition DEFAULT_RETRIES :: int where
  "DEFAULT_RETRIES = 3"

text \<open>\<open>s.replace(/\/$/, '')\<close>: one slash is removed when the string ends with one.\<close>

definition strip_trailing_slash :: "string \<Rightarrow> string" where
  "strip_trailing_slash s = (if s \<noteq> [] \<and> last s = CHR ''/'' then butlast s else s)"

definition new_EmailVerify :: "EmailVerifyConfig \<Rightarrow> error + EmailVerify" where
  "new_EmailVerify config =
     (if falsy_string (config_apiKey config)
      then Inl (AuthenticationError (Some ''API key is required''))
      else Inr \<lparr>apiKey = the (config_apiKey config),
                baseUrl = or_string (map_option strip_trailing_slash (config_baseUrl config))
                            DEFAULT_BASE_URL,
                timeout = or_int (config_timeout config) DEFAULT_TIMEOUT,
                retries = nullish (config_retries config) DEFAULT_RETRIES\<rparr>)"

section \<open>The runtime around the client\<close>

text \<open>
  The client talks to the outside through \<open>fetch\<close>, \<open>setTimeout\<close> and
  \<open>Date.now\<close>. A run is recorded as a trace of these events, in the order they
  happen; a world fixes what the outside answers: the outcome of the k-th \<open>fetch\<close>
  call and the k-th reading of the clock (both counted from 0).
\<close>

datatype request_body =
    VerifyBody string bool "int option"
  | BulkBody "string list" bool "string option"

datatype event =
    Fetch string string "(string \<times> string) list" "request_body option"
  | Sleep int
  | DateNow

type_synonym trace = "event list"

definition is_fetch :: "event \<Rightarrow> bool" where
  "is_fetch e = (case e of Fetch _ _ _ _ \<Rightarrow> True | _ \<Rightarrow> False)"

definition is_now :: "event \<Rightarrow> bool" where
  "is_now e = (case e of DateNow \<Rightarrow> True | _ \<Rightarrow> False)"

definition count_fetches :: "trace \<Rightarrow> nat" where
  "count_fetches tr = length (filter is_fetch tr)"

definition sleeps :: "trace \<Rightarrow> int list" where
  "sleeps tr = concat (map (\<lambda>e. case e of Sleep ms \<Rightarrow> [ms] | _ \<Rightarrow> []) tr)"

definition count_now :: "trace \<Rightarrow> nat" where
  "count_now tr = length (filter is_now tr)"

text \<open>
  The error body of the service, \<open>{ error?: ApiError }\<close>, and a parsed response
  body. The client reads a body at the declared type \<open>{ error?: ApiError }\<close> on the
  error path and at the operation's result type on the success path, and the model
  follows these declarations: \<open>ErrorData e\<close> is an object whose \<open>error\<close>
  member is \<open>e\<close>, \<open>Data v\<close> a value of the result type, which has no
  \<open>error\<close> member. A body outside the declared types (the JSON literal
  \<open>null\<close>, fields that are not strings) is not modelled.
\<close>

record ApiError =
  api_code :: string
  api_message :: string
  api_details :: "string option"

datatype 'a json_value = ErrorData "ApiError option" | Data 'a

text \<open>
  A response: \<open>json\<close> is what the first \<open>response.json()\<close> settles to
  (\<open>Inl m\<close>: it rejects with an error of message \<open>m\<close>), \<open>json_again\<close> what a
  second call on the same response settles to. With \<open>fetch\<close> the body is a stream
  that is read once, so the second call rejects; a test double may answer again.
  \<open>retry_after_header\<close> is \<open>response.headers.get('Retry-After')\<close>.
\<close>

record 'a response =
  status :: int
  statusText :: string
  retry_after_header :: "string option"
  json :: "string + 'a json_value"
  json_again :: "string + 'a json_value"

definition ok :: "'a response \<Rightarrow> bool" where
  "ok r = (200 \<le> status r \<and> status r \<le> 299)"

text \<open>What a \<open>try\<close> block can catch.\<close>

datatype thrown = Taxonomy error | Abort | OtherError string | NotAnError

datatype 'a fetch_result = Resolved "'a response" | Rejected thrown

record 'a world =
  fetch :: "nat \<Rightarrow> 'a fetch_result"
  now :: "nat \<Rightarrow> int"

section \<open>The request pipeline (client.ts)\<close>

definition headers_of :: "EmailVerify \<Rightarrow> (string \<times> string) list" where
  "headers_of this =
     [(''EMAILVERIFY-API-KEY'', apiKey this),
      (''Content-Type'', ''application/json''),
      (''User-Agent'', ''@emailverify/node/1.0.0'')]"

text \<open>The \<open>catch\<close> block of \<open>request\<close>: what it throws for what it caught.\<close>

definition catch_block :: "EmailVerify \<Rightarrow> thrown \<Rightarrow> error" where
  "catch_block this e =
     (case e of
        Taxonomy err \<Rightarrow> err
      | Abort \<Rightarrow>
          TimeoutError (Some (''Request timed out after '' @ show_int (timeout this) @ ''ms''))
      | OtherError m \<Rightarrow> EmailVerifyError (''Network error: '' @ m) ''NETWORK_ERROR'' 0 None
      | NotAnError \<Rightarrow>
          EmailVerifyError (''Network error: '' @ ''Unknown error'') ''NETWORK_ERROR'' 0 None)"

text \<open>
  The end of the \<open>try\<close> block: status 204 gives \<open>undefined\<close> (\<open>None\<close>),
  otherwise the body is parsed; a rejection of \<open>response.json()\<close> is caught by the
  \<open>catch\<close> block.
\<close>

definition read_result ::
  "EmailVerify \<Rightarrow> 'a response \<Rightarrow> string + 'a json_value \<Rightarrow> error + 'a json_value option" where
  "read_result this response j =
     (if status response = 204 then Inr None
      else case j of
             Inl m \<Rightarrow> Inl (catch_block this (OtherError m))
           | Inr v \<Rightarrow> Inr (Some v))"

text \<open>
  \<open>errorData.error\<close> after the \<open>try\<close>/\<open>catch\<close> around \<open>response.json()\<close>:
  a body that is not JSON leaves \<open>errorData = {}\<close>.
\<close>

definition errorData_error :: "'a response \<Rightarrow> ApiError option" where
  "errorData_error response =
     (case json response of
        Inl _ \<Rightarrow> None
      | Inr (ErrorData e) \<Rightarrow> e
      | Inr (Data _) \<Rightarrow> None)"

definition error_message :: "'a response \<Rightarrow> string" where
  "error_message response =
     or_string (map_option api_message (errorData_error response)) (statusText response)"

definition error_code :: "'a response \<Rightarrow> string" where
  "error_code response =
     or_string (map_option api_code (errorData_error response)) ''UNKNOWN_ERROR''"

definition error_details :: "'a response \<Rightarrow> string option" where
  "error_details response = Option.bind (errorData_error response) api_details"

definition retryAfter_of :: "'a response \<Rightarrow> js_number" where
  "retryAfter_of response = parseInt (or_string (retry_after_header response) ''0'')"

text \<open>
  \<open>request\<close> and \<open>handleErrorResponse\<close> call each other: a retry is a call of
  \<open>request\<close> with \<open>attempt + 1\<close>. Both return the outcome (\<open>Inl\<close>: the error
  thrown) and the trace so far. \<open>request\<close> awaits \<open>handleErrorResponse\<close> without
  returning its value, so when the retry inside it succeeded control goes on to the
  end of the \<open>try\<close> block, with the response that failed.
\<close>

function
  request ::
    "EmailVerify \<Rightarrow> 'a world \<Rightarrow> string \<Rightarrow> string \<Rightarrow> request_body option \<Rightarrow> nat \<Rightarrow> trace
       \<Rightarrow> (error + 'a json_value option) \<times> trace"
  and handleErrorResponse ::
    "EmailVerify \<Rightarrow> 'a world \<Rightarrow> 'a response \<Rightarrow> nat \<Rightarrow> string \<Rightarrow> string
       \<Rightarrow> request_body option \<Rightarrow> trace \<Rightarrow> (error + 'a json_value option) \<times> trace"
where
  "request this w meth path body attempt tr =
     (let url = baseUrl this @ path;
          tr1 = tr @ [Fetch url meth (headers_of this) body]
      in case fetch w (count_fetches tr) of
           Rejected e \<Rightarrow> (Inl (catch_block this e), tr1)
         | Resolved response \<Rightarrow>
             if \<not> ok response then
               (case handleErrorResponse this w response attempt meth path body tr1 of
                  (Inl e, tr2) \<Rightarrow> (Inl (catch_block this (Taxonomy e)), tr2)
                | (Inr _, tr2) \<Rightarrow> (read_result this response (json_again response), tr2))
             else (read_result this response (json response), tr1))"
| "handleErrorResponse this w response attempt meth path body tr =
     (let msg = error_message response;
          c = error_code response
      in if status response = 401 then (Inl (AuthenticationError (Some msg)), tr)
         else if status response = 403 then
           (if c = ''INSUFFICIENT_CREDITS'' then (Inl (InsufficientCreditsError (Some msg)), tr)
            else (Inl (EmailVerifyError msg c 403 None), tr))
         else if status response = 404 then (Inl (NotFoundError (Some msg)), tr)
         else if status response = 429 then
           (let retryAfter = retryAfter_of response
            in if int attempt < retries this then
                 request this w meth path body (attempt + 1)
                   (tr @ [Sleep (or_number retryAfter (2 ^ attempt) * 1000)])
               else (Inl (RateLimitError (Some msg) (Some retryAfter)), tr))
         else if status response = 400 then
           (Inl (ValidationError msg (error_details response)), tr)
         else if status response = 500 \<or> status response = 502 \<or> status response = 503 then
           (if int attempt < retries this then
              request this w meth path body (attempt + 1) (tr @ [Sleep (2 ^ attempt * 1000)])
            else (Inl (EmailVerifyError msg c (status response) None), tr))
         else (Inl (EmailVerifyError msg c (status response) None), tr))"
  by pat_completeness auto
termination
  by (relation "measure (\<lambda>x. case x of
         Inl (this, w, meth, path, body, attempt, tr) \<Rightarrow> 2 * nat (retries this - int attempt) + 1
       | Inr (this, w, response, attempt, meth, path, body, tr) \<Rightarrow>
           2 * nat (retries this - int attempt))") auto

declare request.simps [simp del] handleErrorResponse.simps [simp del]

section \<open>Operations (client.ts)\<close>

record VerifyOptions =
  smtpCheck :: "bool option"
  verify_timeout :: "int option"

record BulkVerifyOptions =
  bulk_smtpCheck :: "bool option"
  webhookUrl :: "string option"

record BulkResultsOptions =
  limit :: "int option"
  offset :: "int option"
  results_status :: "string option"

datatype job_status = Pending | Processing | Completed | Failed

record BulkJobResponse =
  job_id :: string
  job_state :: job_status
  job_total :: int
  job_processed :: int
  job_valid :: int
  job_invalid :: int
  job_unknown :: int
  job_credits_used :: int
  job_created_at :: string
  job_completed_at :: "string option"
  job_progress_percent :: "int option"

definition verify ::
  "EmailVerify \<Rightarrow> 'a world \<Rightarrow> string \<Rightarrow> VerifyOptions option \<Rightarrow> trace
     \<Rightarrow> (error + 'a json_value option) \<times> trace" where
  "verify this w email options tr =
     request this w ''POST'' ''/verify''
       (Some (VerifyBody email (nullish (Option.bind options smtpCheck) True)
                (Option.bind options verify_timeout)))
       1 tr"

definition verifyBulk ::
  "EmailVerify \<Rightarrow> 'a world \<Rightarrow> string list \<Rightarrow> BulkVerifyOptions option \<Rightarrow> trace
     \<Rightarrow> (error + 'a json_value option) \<times> trace" where
  "verifyBulk this w emails options tr =
     (if length emails > 10000
      then (Inl (ValidationError ''Maximum 10,000 emails per bulk job'' None), tr)
      else request this w ''POST'' ''/verify/bulk''
             (Some (BulkBody emails (nullish (Option.bind options bulk_smtpCheck) True)
                      (Option.bind options webhookUrl)))
             1 tr)"

definition getBulkJobStatus ::
  "EmailVerify \<Rightarrow> 'a world \<Rightarrow> string \<Rightarrow> trace \<Rightarrow> (error + 'a json_value option) \<times> trace" where
  "getBulkJobStatus this w jobId tr = request this w ''GET'' (''/verify/bulk/'' @ jobId) None 1 tr"

subsection \<open>The query string of getBulkJobResults\<close>

text \<open>
  \<open>URLSearchParams\<close>: an ordered list of name-value pairs. \<open>set\<close> replaces the
  value of a name that is present and appends the pair otherwise; \<open>toString\<close> is the
  \<open>application/x-www-form-urlencoded\<close> serialisation.
\<close>

fun params_set :: "(string \<times> string) list \<Rightarrow> string \<Rightarrow> string \<Rightarrow> (string \<times> string) list" where
  "params_set [] k v = [(k, v)]"
| "params_set (p # ps) k v =
     (if fst p = k then (k, v) # filter (\<lambda>q. fst q \<noteq> k) ps else p # params_set ps k v)"

definition hex_upper :: "nat \<Rightarrow> string" where
  "hex_upper n = [''0123456789ABCDEF'' ! (n div 16), ''0123456789ABCDEF'' ! (n mod 16)]"

definition urlencode_byte :: "char \<Rightarrow> string" where
  "urlencode_byte c =
     (if c = CHR '' '' then ''+''
      else if c \<in> set ''abcdefghijklmnopqrstuvwxyzABCDEFGHIJKLMNOPQRSTUVWXYZ0123456789*-._''
      then [c]
      else CHR ''%'' # hex_upper (of_char c))"

definition urlencode :: "string \<Rightarrow> string" where
  "urlencode s = concat (map urlencode_byte s)"

fun params_toString :: "(string \<times> string) list \<Rightarrow> string" where
  "params_toString [] = []"
| "params_toString [(k, v)] = urlencode k @ ''='' @ urlencode v"
| "params_toString ((k, v) # p # ps) =
     urlencode k @ ''='' @ urlencode v @ ''&'' @ params_toString (p # ps)"

definition results_params :: "BulkResultsOptions option \<Rightarrow> (string \<times> string) list" where
  "results_params options =
     (let params = [];
          params = (if \<not> falsy_int (Option.bind options limit)
                    then params_set params ''limit'' (show_int (the (Option.bind options limit)))
                    else params);
          params = (if Option.bind options offset \<noteq> None
                    then params_set params ''offset'' (show_int (the (Option.bind options offset)))
                    else params);
          params = (if \<not> falsy_string (Option.bind options results_status)
                    then params_set params ''status'' (the (Option.bind options results_status))
                    else params)
      in params)"

definition results_path :: "string \<Rightarrow> BulkResultsOptions option \<Rightarrow> string" where
  "results_path jobId options =
     (let query = params_toString (results_params options)
      in ''/verify/bulk/'' @ jobId @ ''/results'' @ (if query \<noteq> [] then ''?'' @ query else []))"

definition getBulkJobResults ::
  "EmailVerify \<Rightarrow> 'a world \<Rightarrow> string \<Rightarrow> BulkResultsOptions option \<Rightarrow> trace
     \<Rightarrow> (error + 'a json_value option) \<times> trace" where
  "getBulkJobResults this w jobId options tr =
     request this w ''GET'' (results_path jobId options) None 1 tr"

subsection \<open>Polling for the end of a bulk job\<close>

text \<open>
  One turn of the \<open>while\<close> loop of \<open>waitForBulkJobCompletion\<close>, after its test
  has passed: the poll, then either the end of the call or the sleep before the next
  turn. Reading \<open>status.status\<close> of \<open>undefined\<close> (a 204 answer) throws a
  \<open>TypeError\<close>, which nothing here catches; an error body has no \<open>status\<close>
  member, so it is not a final state.
\<close>

datatype 'r turn = Return 'r | Continue trace

definition poll_turn ::
  "EmailVerify \<Rightarrow> BulkJobResponse world \<Rightarrow> string \<Rightarrow> int \<Rightarrow> trace
     \<Rightarrow> ((thrown + BulkJobResponse) \<times> trace) turn" where
  "poll_turn this w jobId pollInterval tr =
     (case getBulkJobStatus this w jobId tr of
        (Inl e, tr1) \<Rightarrow> Return (Inl (Taxonomy e), tr1)
      | (Inr None, tr1) \<Rightarrow>
          Return (Inl (OtherError ''Cannot read properties of undefined (reading 'status')''), tr1)
      | (Inr (Some (ErrorData _)), tr1) \<Rightarrow> Continue (tr1 @ [Sleep pollInterval])
      | (Inr (Some (Data job)), tr1) \<Rightarrow>
          if job_state job = Completed \<or> job_state job = Failed then Return (Inr job, tr1)
          else Continue (tr1 @ [Sleep pollInterval]))"

text \<open>
  The loop may run for ever (a clock that stands still, a job that never ends):
  not returning is the value \<open>None\<close>.
\<close>

partial_function (option) poll_loop ::
  "EmailVerify \<Rightarrow> BulkJobResponse world \<Rightarrow> string \<Rightarrow> int \<Rightarrow> int \<Rightarrow> int \<Rightarrow> trace
     \<Rightarrow> ((thrown + BulkJobResponse) \<times> trace) option" where
  "poll_loop this w jobId pollInterval maxWait startTime tr =
     (if now w (count_now tr) - startTime < maxWait then
        (case poll_turn this w jobId pollInterval (tr @ [DateNow]) of
           Return r \<Rightarrow> Some r
         | Continue tr' \<Rightarrow> poll_loop this w jobId pollInterval maxWait startTime tr')
      else Some (Inl (Taxonomy (TimeoutError (Some (''Bulk job '' @ jobId @
                   '' did not complete within '' @ show_int maxWait @ ''ms'')))),
                 tr @ [DateNow]))"

definition waitForBulkJobCompletion ::
  "EmailVerify \<Rightarrow> BulkJobResponse world \<Rightarrow> string \<Rightarrow> int option \<Rightarrow> int option \<Rightarrow> trace
     \<Rightarrow> ((thrown + BulkJobResponse) \<times> trace) option" where
  "waitForBulkJobCompletion this w jobId pollInterval maxWait tr =
     (let startTime = now w (count_now tr)
      in poll_loop this w jobId (nullish pollInterval 5000) (nullish maxWait 600000) startTime
           (tr @ [DateNow]))"

subsection \<open>Webhook signatures\<close>

text \<open>
  \<open>require('crypto')\<close> is Node's module, not code of the client: the client is given
  its two functions. \<open>hmac_sha256 key data\<close> is the digest of
  \<open>createHmac('sha256', key).update(data)\<close>, as bytes; \<open>timingSafeEqual\<close>
  throws (\<open>Inl\<close>) or answers.
\<close>

type_synonym buffer = "char list"

record crypto =
  hmac_sha256 :: "string \<Rightarrow> string \<Rightarrow> buffer"
  timingSafeEqual :: "buffer \<Rightarrow> buffer \<Rightarrow> string + bool"

text \<open>Node's \<open>timingSafeEqual\<close>: a \<open>RangeError\<close> on buffers of different lengths.\<close>

definition node_timingSafeEqual :: "buffer \<Rightarrow> buffer \<Rightarrow> string + bool" where
  "node_timingSafeEqual a b =
     (if length a \<noteq> length b then Inl ''Input buffers must have the same byte length''
      else Inr (a = b))"

definition node_crypto :: "(string \<Rightarrow> string \<Rightarrow> buffer) \<Rightarrow> crypto" where
  "node_crypto hmac = \<lparr>hmac_sha256 = hmac, timingSafeEqual = node_timingSafeEqual\<rparr>"

text \<open>\<open>digest('hex')\<close>: two lower-case hexadecimal digits for each byte.\<close>

definition hex_byte :: "char \<Rightarrow> string" where
  "hex_byte c =
     [''0123456789abcdef'' ! (of_char c div 16), ''0123456789abcdef'' ! (of_char c mod 16)]"

definition hex :: "buffer \<Rightarrow> string" where
  "hex bs = concat (map hex_byte bs)"

text \<open>\<open>Buffer.from(s)\<close>: the UTF-8 bytes of the string, which is how strings are modelled.\<close>

definition Buffer_from :: "string \<Rightarrow> buffer" where
  "Buffer_from s = s"

definition verifyWebhookSignature ::
  "crypto \<Rightarrow> string \<Rightarrow> string \<Rightarrow> string \<Rightarrow> string + bool" where
  "verifyWebhookSignature crypto payload signature secret =
     (let expectedSignature = ''sha256='' @ hex (hmac_sha256 crypto secret payload);
          sigBuffer = Buffer_from signature;
          expectedBuffer = Buffer_from expectedSignature
      in if length sigBuffer \<noteq> length expectedBuffer then Inr False
         else timingSafeEqual crypto sigBuffer expectedBuffer)"

section \<open>Fixtures for the examples\<close>

text \<open>
  Responses as \<open>fetch\<close> gives them (the body can be read once), worlds that answer
  from a script, and the client of the test suite.
\<close>

definition reply :: "int \<Rightarrow> string \<Rightarrow> string option \<Rightarrow> 'a json_value \<Rightarrow> 'a response" where
  "reply st txt ra body =
     \<lparr>status = st, statusText = txt, retry_after_header = ra, json = Inr body,
      json_again = Inl ''Body is unusable: Body has already been read''\<rparr>"

definition api_error :: "string \<Rightarrow> string \<Rightarrow> 'a json_value" where
  "api_error c m = ErrorData (Some \<lparr>api_code = c, api_message = m, api_details = None\<rparr>)"

definition scripted :: "'a fetch_result list \<Rightarrow> 'a fetch_result \<Rightarrow> (nat \<Rightarrow> int) \<Rightarrow> 'a world" where
  "scripted rs d clock = \<lparr>fetch = (\<lambda>k. if k < length rs then rs ! k else d), now = clock\<rparr>"

definition test_client :: "int \<Rightarrow> EmailVerify" where
  "test_client n =
     \<lparr>apiKey = ''test-api-key'', baseUrl = ''https://api.emailverify.ai/v1'',
      timeout = 30000, retries = n\<rparr>"

definition test_job :: "job_status \<Rightarrow> BulkJobResponse" where
  "test_job s =
     \<lparr>job_id = ''job_123'', job_state = s, job_total = 100, job_processed = 50,
      job_valid = 0, job_invalid = 0, job_unknown = 0, job_credits_used = 0,
      job_created_at = ''2025-01-15T10:30:00Z'', job_completed_at = None,
      job_progress_percent = Some 50\<rparr>"

text \<open>
  The example of the test suite for webhook signatures: the payload, and an HMAC function
  that knows the digest of that payload under the key \<open>test-secret\<close>.
\<close>

definition test_digest :: buffer where
  "test_digest =
     [CHR 0xAD, CHR 0x38, CHR 0x6D, CHR 0x9A, CHR 0x61, CHR 0xA0, CHR 0x54, CHR 0x0A,
      CHR 0x08, CHR 0x9D, CHR 0x29, CHR 0x55, CHR 0xA0, CHR 0x72, CHR 0x80, CHR 0x77,
      CHR 0x14, CHR 0x39, CHR 0xF9, CHR 0xF8, CHR 0xC4, CHR 0x1A, CHR 0x4B, CHR 0x94,
      CHR 0xCD, CHR 0x40, CHR 0x4A, CHR 0x74, CHR 0x00, CHR 0x61, CHR 0xC3, CHR 0xD9]"

definition test_payload :: string where
  "test_payload =
     [CHR ''{'', CHR 0x22] @ ''event'' @ [CHR 0x22, CHR '':'', CHR 0x22] @ ''test'' @
     [CHR 0x22, CHR ''}'']"

definition test_hmac :: "string \<Rightarrow> string \<Rightarrow> buffer" where
  "test_hmac key data = (if key = ''test-secret'' \<and> data = test_payload then test_digest else [])"

section \<open>Reading fixtures and traces\<close>

lemma reply_simps [simp]:
  "status (reply st txt ra body) = st"
  "statusText (reply st txt ra body) = txt"
  "retry_after_header (reply st txt ra body) = ra"
  "json (reply st txt ra body) = Inr body"
  "json_again (reply st txt ra body) = Inl ''Body is unusable: Body has already been read''"
  by (simp_all add: reply_def)

lemma is_fetch_simps [simp]:
  "is_fetch (Fetch u m h b)" "\<not> is_fetch (Sleep ms)" "\<not> is_fetch DateNow"
  by (simp_all add: is_fetch_def)

lemma count_fetches_append [simp]:
  "count_fetches (tr @ tr') = count_fetches tr + count_fetches tr'"
  by (simp add: count_fetches_def)

lemma count_fetches_simps [simp]:
  "count_fetches [] = 0"
  "count_fetches (Fetch u m h b # tr) = Suc (count_fetches tr)"
  "count_fetches (Sleep ms # tr) = count_fetches tr"
  "count_fetches (DateNow # tr) = count_fetches tr"
  by (simp_all add: count_fetches_def)

lemma sleeps_append [simp]: "sleeps (tr @ tr') = sleeps tr @ sleeps tr'"
  by (simp add: sleeps_def)

lemma sleeps_simps [simp]:
  "sleeps [] = []"
  "sleeps (Fetch u m h b # tr) = sleeps tr"
  "sleeps (Sleep ms # tr) = ms # sleeps tr"
  "sleeps (DateNow # tr) = sleeps tr"
  by (simp_all add: sleeps_def)

lemma count_now_append [simp]: "count_now (tr @ tr') = count_now tr + count_now tr'"
  by (simp add: count_now_def)

lemma count_now_simps [simp]:
  "count_now [] = 0"
  "count_now (Fetch u m h b # tr) = count_now tr"
  "count_now (Sleep ms # tr) = count_now tr"
  "count_now (DateNow # tr) = Suc (count_now tr)"
  by (simp_all add: count_now_def is_now_def)

section \<open>One step of the pipeline\<close>

text \<open>What \<open>request\<close> does with the outcome of its \<open>fetch\<close> call.\<close>

lemma request_rejected:
  "fetch w (count_fetches tr) = Rejected e \<Longrightarrow>
   request this w m p b a tr =
     (Inl (catch_block this e), tr @ [Fetch (baseUrl this @ p) m (headers_of this) b])"
  by (simp add: request.simps)

lemma request_ok:
  "fetch w (count_fetches tr) = Resolved r \<Longrightarrow> ok r \<Longrightarrow>
   request this w m p b a tr =
     (read_result this r (json r), tr @ [Fetch (baseUrl this @ p) m (headers_of this) b])"
  by (simp add: request.simps)

lemma request_not_ok:
  "fetch w (count_fetches tr) = Resolved r \<Longrightarrow> \<not> ok r \<Longrightarrow>
   request this w m p b a tr =
     (case handleErrorResponse this w r a m p b
             (tr @ [Fetch (baseUrl this @ p) m (headers_of this) b]) of
        (Inl e, tr2) \<Rightarrow> (Inl e, tr2)
      | (Inr x, tr2) \<Rightarrow> (read_result this r (json_again r), tr2))"
  by (simp add: request.simps catch_block_def split: prod.splits sum.splits)

text \<open>The branches of \<open>handleErrorResponse\<close> that retry, and the same when no attempt is left.\<close>

lemma handle_429_retry:
  "status r = 429 \<Longrightarrow> int a < retries this \<Longrightarrow>
   handleErrorResponse this w r a m p b tr =
     request this w m p b (a + 1) (tr @ [Sleep (or_number (retryAfter_of r) (2 ^ a) * 1000)])"
  by (simp add: handleErrorResponse.simps)

lemma handle_429_exhausted:
  "status r = 429 \<Longrightarrow> \<not> int a < retries this \<Longrightarrow>
   handleErrorResponse this w r a m p b tr =
     (Inl (RateLimitError (Some (error_message r)) (Some (retryAfter_of r))), tr)"
  by (simp add: handleErrorResponse.simps)

lemma handle_5xx_retry:
  "status r = 500 \<or> status r = 502 \<or> status r = 503 \<Longrightarrow> int a < retries this \<Longrightarrow>
   handleErrorResponse this w r a m p b tr =
     request this w m p b (a + 1) (tr @ [Sleep (2 ^ a * 1000)])"
  by (auto simp add: handleErrorResponse.simps)

lemma handle_5xx_exhausted:
  "status r = 500 \<or> status r = 502 \<or> status r = 503 \<Longrightarrow> \<not> int a < retries this \<Longrightarrow>
   handleErrorResponse this w r a m p b tr =
     (Inl (EmailVerifyError (error_message r) (error_code r) (status r) None), tr)"
  by (auto simp add: handleErrorResponse.simps)

lemma retryable_not_ok: "status r \<in> {429, 500, 502, 503} \<Longrightarrow> \<not> ok r"
  by (auto simp add: ok_def)

text \<open>\<open>handleErrorResponse\<close> either retries after one sleep or throws at once.\<close>

lemma handle_shape:
  "(int a < retries this \<and>
      (\<exists>ms. handleErrorResponse this w r a m p b tr =
              request this w m p b (a + 1) (tr @ [Sleep ms]))) \<or>
   (\<exists>e. handleErrorResponse this w r a m p b tr = (Inl e, tr))"
proof (cases "int a < retries this \<and> status r \<in> {429, 500, 502, 503}")
  case retry: True
  show ?thesis
  proof (cases "status r = 429")
    case True
    with retry show ?thesis
      using handle_429_retry [of r a this w m p b tr] by blast
  next
    case False
    with retry have "status r = 500 \<or> status r = 502 \<or> status r = 503" by auto
    with retry show ?thesis
      using handle_5xx_retry [of r a this w m p b tr] by blast
  qed
next
  case False
  then show ?thesis
    by (auto simp add: handleErrorResponse.simps Let_def)
qed

text \<open>Every call of \<open>request\<close> starts with its \<open>fetch\<close>.\<close>

lemma request_starts_with_fetch:
  "\<exists>rest. snd (request this w m p b a tr) =
          tr @ Fetch (baseUrl this @ p) m (headers_of this) b # rest"
proof (induction "nat (retries this - int a)" arbitrary: a tr rule: less_induct)
  case less
  let ?call = "Fetch (baseUrl this @ p) m (headers_of this) b"
  show ?case
  proof (cases "fetch w (count_fetches tr)")
    case (Rejected e)
    then show ?thesis by (simp add: request_rejected)
  next
    case (Resolved r)
    show ?thesis
    proof (cases "ok r")
      case True
      with Resolved show ?thesis by (simp add: request_ok)
    next
      case False
      have "\<exists>rest. snd (handleErrorResponse this w r a m p b (tr @ [?call])) = tr @ ?call # rest"
        using handle_shape [of a this w r m p b "tr @ [?call]"]
      proof (elim disjE conjE exE)
        fix ms
        assume more: "int a < retries this"
          and h: "handleErrorResponse this w r a m p b (tr @ [?call]) =
                  request this w m p b (a + 1) ((tr @ [?call]) @ [Sleep ms])"
        from more have "nat (retries this - int (a + 1)) < nat (retries this - int a)"
          by linarith
        from less [OF this, of "(tr @ [?call]) @ [Sleep ms]"] h show ?thesis by auto
      next
        fix e
        assume "handleErrorResponse this w r a m p b (tr @ [?call]) = (Inl e, tr @ [?call])"
        then show ?thesis by simp
      qed
      with Resolved False show ?thesis
        by (auto simp add: request_not_ok split: prod.splits sum.splits)
    qed
  qed
qed

section \<open>Retries\<close>

text \<open>When no attempt is left, a retried status costs one call and no sleep.\<close>

lemma last_attempt:
  assumes "fetch w (count_fetches tr) = Resolved r" "status r \<in> {429, 500, 502, 503}"
    "\<not> int a < retries this"
  shows "request this w m p b a tr =
     (Inl (if status r = 429
           then RateLimitError (Some (error_message r)) (Some (retryAfter_of r))
           else EmailVerifyError (error_message r) (error_code r) (status r) None),
      tr @ [Fetch (baseUrl this @ p) m (headers_of this) b])"
proof (cases "status r = 429")
  case True
  with assms show ?thesis
    by (simp add: request_not_ok retryable_not_ok handle_429_exhausted)
next
  case False
  with assms have "status r = 500 \<or> status r = 502 \<or> status r = 503" by auto
  with assms False show ?thesis
    by (simp add: request_not_ok retryable_not_ok handle_5xx_exhausted)
qed




section \<open>Errors that are not retried\<close>




section \<open>Construction\<close>

text \<open>
  C8. Construction throws exactly when the API key is absent or empty, and what it throws
  is an \<open>AuthenticationError\<close>. With a key that is not empty it succeeds: the base
  URL is the configured one without its last character when that is a slash (one slash,
  not more), and the known endpoint when none is configured or nothing is left; the
  timeout is 30000 when not supplied (or 0), the retries are 3 when not supplied, and
  configured values are kept otherwise.
\<close>

theorem construction_contract:
  "((\<exists>e. new_EmailVerify config = Inl e) \<longleftrightarrow>
      config_apiKey config = None \<or> config_apiKey config = Some []) \<and>
   (\<forall>e. new_EmailVerify config = Inl e \<longrightarrow>
      e = AuthenticationError (Some ''API key is required'') \<and>
      name e = AuthenticationErrorName \<and> code e = ''INVALID_API_KEY'' \<and> statusCode e = 401) \<and>
   (\<forall>k. config_apiKey config = Some k \<and> k \<noteq> [] \<longrightarrow>
      (\<exists>c. new_EmailVerify config = Inr c \<and> apiKey c = k \<and>
         (config_baseUrl config = None \<longrightarrow> baseUrl c = ''https://api.emailverify.ai/v1'') \<and>
         (\<forall>v. config_baseUrl config = Some (v @ ''/'') \<longrightarrow>
            baseUrl c = (if v = [] then ''https://api.emailverify.ai/v1'' else v)) \<and>
         (\<forall>u. config_baseUrl config = Some u \<and> (u = [] \<or> last u \<noteq> CHR ''/'') \<longrightarrow>
            baseUrl c = (if u = [] then ''https://api.emailverify.ai/v1'' else u)) \<and>
         (config_timeout config = None \<longrightarrow> timeout c = 30000) \<and>
         (\<forall>t. config_timeout config = Some t \<longrightarrow> timeout c = (if t = 0 then 30000 else t)) \<and>
         (config_retries config = None \<longrightarrow> retries c = 3) \<and>
         (\<forall>n. config_retries config = Some n \<longrightarrow> retries c = n)))"
proof -
  have fail: "(\<exists>e. new_EmailVerify config = Inl e) \<longleftrightarrow>
      config_apiKey config = None \<or> config_apiKey config = Some []"
    by (cases "config_apiKey config") (auto simp add: new_EmailVerify_def falsy_string_def)
  have kind: "\<forall>e. new_EmailVerify config = Inl e \<longrightarrow>
      e = AuthenticationError (Some ''API key is required'') \<and>
      name e = AuthenticationErrorName \<and> code e = ''INVALID_API_KEY'' \<and> statusCode e = 401"
    by (auto simp add: new_EmailVerify_def AuthenticationError_def EmailVerifyError_def
        split: if_splits)
  have succeed: "\<exists>c. new_EmailVerify config = Inr c \<and> apiKey c = k \<and>
         (config_baseUrl config = None \<longrightarrow> baseUrl c = ''https://api.emailverify.ai/v1'') \<and>
         (\<forall>v. config_baseUrl config = Some (v @ ''/'') \<longrightarrow>
            baseUrl c = (if v = [] then ''https://api.emailverify.ai/v1'' else v)) \<and>
         (\<forall>u. config_baseUrl config = Some u \<and> (u = [] \<or> last u \<noteq> CHR ''/'') \<longrightarrow>
            baseUrl c = (if u = [] then ''https://api.emailverify.ai/v1'' else u)) \<and>
         (config_timeout config = None \<longrightarrow> timeout c = 30000) \<and>
         (\<forall>t. config_timeout config = Some t \<longrightarrow> timeout c = (if t = 0 then 30000 else t)) \<and>
         (config_retries config = None \<longrightarrow> retries c = 3) \<and>
         (\<forall>n. config_retries config = Some n \<longrightarrow> retries c = n)"
    if "config_apiKey config = Some k" "k \<noteq> []" for k
    using that
    by (auto simp add: new_EmailVerify_def falsy_string_def or_string_def or_int_def falsy_int_def
        nullish_def strip_trailing_slash_def DEFAULT_BASE_URL_def DEFAULT_TIMEOUT_def
        DEFAULT_RETRIES_def)
  from fail kind succeed show ?thesis by blast
qed

theorem construction_contract_witness:
  "new_EmailVerify \<lparr>config_apiKey = Some [], config_baseUrl = None, config_timeout = None,
      config_retries = None\<rparr> = Inl (AuthenticationError (Some ''API key is required'')) \<and>
   new_EmailVerify \<lparr>config_apiKey = Some ''test-key'',
      config_baseUrl = Some ''https://custom.api.com//'', config_timeout = None,
      config_retries = None\<rparr> =
     Inr \<lparr>apiKey = ''test-key'', baseUrl = ''https://custom.api.com/'', timeout = 30000,
          retries = 3\<rparr>"
proof -
  let ?bad = "\<lparr>config_apiKey = Some [], config_baseUrl = None, config_timeout = None,
      config_retries = None\<rparr>"
  let ?good = "\<lparr>config_apiKey = Some ''test-key'',
      config_baseUrl = Some ''https://custom.api.com//'', config_timeout = None,
      config_retries = None\<rparr>"
  from construction_contract [of ?bad]
  have 1: "new_EmailVerify ?bad = Inl (AuthenticationError (Some ''API key is required''))"
    by auto
  from construction_contract [of ?good]
  obtain c where c: "new_EmailVerify ?good = Inr c" "apiKey c = ''test-key''"
    and url: "\<forall>v. config_baseUrl ?good = Some (v @ ''/'') \<longrightarrow>
            baseUrl c = (if v = [] then ''https://api.emailverify.ai/v1'' else v)"
    and rest: "timeout c = 30000" "retries c = 3"
    by auto
  from url [rule_format, of "''https://custom.api.com/''"]
  have "baseUrl c = ''https://custom.api.com/''" by simp
  with c rest have "c = \<lparr>apiKey = ''test-key'', baseUrl = ''https://custom.api.com/'',
      timeout = 30000, retries = 3\<rparr>"
    by simp
  with c 1 show ?thesis by simp
qed

text \<open>
  C10. The two numeric fields take their defaults differently. A configured timeout of 0
  (any falsy timeout) becomes 30000, a configured \<open>retries\<close> of 0 stays 0; and with
  \<open>retries = 0\<close> a response with status 429, 500, 502 or 503 to the first attempt
  ends the request: the trace grows by one call, no sleep, and the error is thrown.
\<close>

theorem zero_timeout_zero_retries:
  assumes "\<not> falsy_string (config_apiKey config)"
    and "falsy_int (config_timeout config)"
    and "config_retries config = Some 0"
    and "fetch w (count_fetches tr) = Resolved r"
    and "status r \<in> {429, 500, 502, 503}"
  shows "\<exists>this. new_EmailVerify config = Inr this \<and> timeout this = 30000 \<and> retries this = 0 \<and>
           request this w m p b 1 tr =
             (Inl (if status r = 429
                   then RateLimitError (Some (error_message r)) (Some (retryAfter_of r))
                   else EmailVerifyError (error_message r) (error_code r) (status r) None),
              tr @ [Fetch (baseUrl this @ p) m (headers_of this) b])"
proof -
  from assms(1-3) obtain c where c: "new_EmailVerify config = Inr c"
    "timeout c = 30000" "retries c = 0"
    by (auto simp add: new_EmailVerify_def or_int_def nullish_def DEFAULT_TIMEOUT_def)
  then have none_left: "\<not> int 1 < retries c" by simp
  from last_attempt [OF assms(4,5) none_left] c show ?thesis by blast
qed

theorem zero_timeout_zero_retries_witness:
  "\<exists>this. new_EmailVerify \<lparr>config_apiKey = Some ''test-key'', config_baseUrl = None,
              config_timeout = Some 0, config_retries = Some 0\<rparr> = Inr this \<and>
          timeout this = 30000 \<and> retries this = 0 \<and>
          request this
            (scripted [] (Resolved (reply 429 ''Too Many Requests'' (Some ''7'')
               (api_error ''RATE_LIMIT_EXCEEDED'' ''Rate limit exceeded''))) (\<lambda>k. 0) :: unit world)
            ''GET'' ''/credits'' None 1 [] =
          (Inl (RateLimitError (Some ''Rate limit exceeded'') (Some (Number 7))),
           [Fetch ''https://api.emailverify.ai/v1/credits'' ''GET'' (headers_of this) None])"
proof -
  let ?config = "\<lparr>config_apiKey = Some ''test-key'', config_baseUrl = None,
              config_timeout = Some 0, config_retries = Some 0\<rparr>"
  let ?r = "reply 429 ''Too Many Requests'' (Some ''7'')
               (api_error ''RATE_LIMIT_EXCEEDED'' ''Rate limit exceeded'') :: unit response"
  let ?w = "scripted [] (Resolved ?r) (\<lambda>k. 0)"
  have h1: "\<not> falsy_string (config_apiKey ?config)" by (simp add: falsy_string_def)
  have h2: "falsy_int (config_timeout ?config)" by (simp add: falsy_int_def)
  have h3: "config_retries ?config = Some 0" by simp
  have h4: "fetch ?w (count_fetches []) = Resolved ?r" by (simp add: scripted_def)
  have h5: "status ?r \<in> {429, 500, 502, 503}" by (simp add: reply_def)
  from zero_timeout_zero_retries [OF h1 h2 h3 h4 h5, where m = "''GET''" and p = "''/credits''"
      and b = None]
  obtain c where c: "new_EmailVerify ?config = Inr c" "timeout c = 30000"
      "retries c = 0"
    and run: "request c ?w ''GET'' ''/credits'' None 1 [] =
      (Inl (if status ?r = 429
            then RateLimitError (Some (error_message ?r)) (Some (retryAfter_of ?r))
            else EmailVerifyError (error_message ?r) (error_code ?r) (status ?r) None),
       [] @ [Fetch (baseUrl c @ ''/credits'') ''GET'' (headers_of c) None])"
    by blast
  from c(1) have url: "baseUrl c = ''https://api.emailverify.ai/v1''"
    by (auto simp add: new_EmailVerify_def falsy_string_def or_string_def DEFAULT_BASE_URL_def)
  have "retryAfter_of ?r = Number 7"
    by (simp add: retryAfter_of_def reply_def or_string_def falsy_string_def parseInt_def
        is_space_def is_digit_def digit_value_def)
  moreover have "error_message ?r = ''Rate limit exceeded''"
    by (simp add: reply_def api_error_def error_message_def errorData_error_def
        or_string_def falsy_string_def)
  moreover have "status ?r = 429" by (simp add: reply_def)
  ultimately show ?thesis using c run url by auto
qed

section \<open>Bulk verification\<close>

text \<open>
  C6. \<open>verifyBulk\<close> looks at the length of the list before anything else. With more
  than 10000 emails it throws a \<open>ValidationError\<close> and the trace is unchanged: no
  HTTP request was made. With at most 10000 (10000 included) the next event of the trace
  is the POST of \<open>/verify/bulk\<close> with these emails. So the call ends with an error
  and an unchanged trace exactly when the list is longer than 10000.
\<close>

theorem bulk_limit_is_checked_first:
  "(10000 < length emails \<longrightarrow>
      verifyBulk this w emails options tr =
        (Inl (ValidationError ''Maximum 10,000 emails per bulk job'' None), tr) \<and>
      name (ValidationError ''Maximum 10,000 emails per bulk job'' None) = ValidationErrorName) \<and>
   (length emails \<le> 10000 \<longrightarrow>
      (\<exists>rest. snd (verifyBulk this w emails options tr) =
         tr @ Fetch (baseUrl this @ ''/verify/bulk'') ''POST'' (headers_of this)
                (Some (BulkBody emails (nullish (Option.bind options bulk_smtpCheck) True)
                         (Option.bind options webhookUrl))) # rest)) \<and>
   ((\<exists>e. verifyBulk this w emails options tr = (Inl e, tr)) \<longleftrightarrow> 10000 < length emails)"
proof -
  let ?body = "Some (BulkBody emails (nullish (Option.bind options bulk_smtpCheck) True)
                         (Option.bind options webhookUrl))"
  have big: "verifyBulk this w emails options tr =
        (Inl (ValidationError ''Maximum 10,000 emails per bulk job'' None), tr)"
    if "10000 < length emails"
    using that by (simp add: verifyBulk_def)
  have small: "\<exists>rest. snd (verifyBulk this w emails options tr) =
         tr @ Fetch (baseUrl this @ ''/verify/bulk'') ''POST'' (headers_of this) ?body # rest"
    if "length emails \<le> 10000"
    using that request_starts_with_fetch [of this w "''POST''" "''/verify/bulk''" ?body 1 tr]
    by (simp add: verifyBulk_def)
  have "\<not> (\<exists>e. verifyBulk this w emails options tr = (Inl e, tr))" if "length emails \<le> 10000"
    using small [OF that] by auto
  then have iff: "(\<exists>e. verifyBulk this w emails options tr = (Inl e, tr)) \<longleftrightarrow>
      10000 < length emails"
    using big by (cases "10000 < length emails") auto
  have kind: "name (ValidationError ''Maximum 10,000 emails per bulk job'' None) =
      ValidationErrorName"
    by (simp add: ValidationError_def)
  from big small iff kind show ?thesis by blast
qed

theorem bulk_limit_is_checked_first_witness:
  "verifyBulk (test_client 3) (scripted [] (Rejected Abort) (\<lambda>k. 0) :: unit world)
     (replicate 10001 ''test@example.com'') None [] =
     (Inl (ValidationError ''Maximum 10,000 emails per bulk job'' None), []) \<and>
   (\<exists>rest. snd (verifyBulk (test_client 3) (scripted [] (Rejected Abort) (\<lambda>k. 0) :: unit world)
             (replicate 10000 ''test@example.com'') None []) =
      Fetch ''https://api.emailverify.ai/v1/verify/bulk'' ''POST'' (headers_of (test_client 3))
        (Some (BulkBody (replicate 10000 ''test@example.com'') True None)) # rest)"
proof -
  let ?w = "scripted [] (Rejected Abort) (\<lambda>k. 0) :: unit world"
  have big: "10000 < length (replicate 10001 ''test@example.com'')" by simp
  have small: "length (replicate 10000 ''test@example.com'') \<le> 10000" by simp
  note big_case = bulk_limit_is_checked_first [of "replicate 10001 ''test@example.com''"
      "test_client 3" ?w None "[]", THEN conjunct1, rule_format, OF big, THEN conjunct1]
  note small_case = bulk_limit_is_checked_first [of "replicate 10000 ''test@example.com''"
      "test_client 3" ?w None "[]", THEN conjunct2, THEN conjunct1, rule_format, OF small]
  from big_case
  have 1: "verifyBulk (test_client 3) ?w (replicate 10001 ''test@example.com'') None [] =
     (Inl (ValidationError ''Maximum 10,000 emails per bulk job'' None), [])" .
  from small_case
  have 2: "\<exists>rest. snd (verifyBulk (test_client 3) ?w (replicate 10000 ''test@example.com'') None []) =
      Fetch ''https://api.emailverify.ai/v1/verify/bulk'' ''POST'' (headers_of (test_client 3))
        (Some (BulkBody (replicate 10000 ''test@example.com'') True None)) # rest"
    by (simp add: test_client_def nullish_def)
  from 1 2 show ?thesis by blast
qed

section \<open>The query string of the results\<close>

lemma params_toString_empty: "params_toString ps = [] \<longleftrightarrow> ps = []"
  by (cases ps rule: params_toString.cases) simp_all

text \<open>
  C9. The parameters of \<open>getBulkJobResults\<close> are, in this order: \<open>limit\<close> when
  it is given and not 0, \<open>offset\<close> whenever it is given (0 included), \<open>status\<close>
  when it is given and not empty. The request is a GET of
  \<open>/verify/bulk/{jobId}/results\<close>, followed by \<open>?\<close> and the serialised
  parameters when there is one.
\<close>

theorem results_query_string:
  "results_params options =
     (case options of
        None \<Rightarrow> []
      | Some opts \<Rightarrow>
          (case limit opts of None \<Rightarrow> [] | Some l \<Rightarrow> if l = 0 then [] else [(''limit'', show_int l)]) @
          (case offset opts of None \<Rightarrow> [] | Some n \<Rightarrow> [(''offset'', show_int n)]) @
          (case results_status opts of
             None \<Rightarrow> []
           | Some s \<Rightarrow> if s = [] then [] else [(''status'', s)])) \<and>
   getBulkJobResults this w jobId options tr =
     request this w ''GET''
       (''/verify/bulk/'' @ jobId @ ''/results'' @
        (if results_params options = [] then []
         else ''?'' @ params_toString (results_params options)))
       None 1 tr \<and>
   ((''offset'' \<in> fst ` set (results_params options)) \<longleftrightarrow>
      (\<exists>opts n. options = Some opts \<and> offset opts = Some n)) \<and>
   ((''limit'' \<in> fst ` set (results_params options)) \<longleftrightarrow>
      (\<exists>opts l. options = Some opts \<and> limit opts = Some l \<and> l \<noteq> 0)) \<and>
   ((''status'' \<in> fst ` set (results_params options)) \<longleftrightarrow>
      (\<exists>opts s. options = Some opts \<and> results_status opts = Some s \<and> s \<noteq> []))"
proof -
  have params: "results_params options =
     (case options of
        None \<Rightarrow> []
      | Some opts \<Rightarrow>
          (case limit opts of None \<Rightarrow> [] | Some l \<Rightarrow> if l = 0 then [] else [(''limit'', show_int l)]) @
          (case offset opts of None \<Rightarrow> [] | Some n \<Rightarrow> [(''offset'', show_int n)]) @
          (case results_status opts of
             None \<Rightarrow> []
           | Some s \<Rightarrow> if s = [] then [] else [(''status'', s)]))"
    by (simp add: results_params_def falsy_int_def falsy_string_def
        split: option.splits)
  have path: "getBulkJobResults this w jobId options tr =
     request this w ''GET''
       (''/verify/bulk/'' @ jobId @ ''/results'' @
        (if results_params options = [] then []
         else ''?'' @ params_toString (results_params options)))
       None 1 tr"
    by (simp add: getBulkJobResults_def results_path_def params_toString_empty)
  have keys:
    "(''offset'' \<in> fst ` set (results_params options)) \<longleftrightarrow>
      (\<exists>opts n. options = Some opts \<and> offset opts = Some n)"
    "(''limit'' \<in> fst ` set (results_params options)) \<longleftrightarrow>
      (\<exists>opts l. options = Some opts \<and> limit opts = Some l \<and> l \<noteq> 0)"
    "(''status'' \<in> fst ` set (results_params options)) \<longleftrightarrow>
      (\<exists>opts s. options = Some opts \<and> results_status opts = Some s \<and> s \<noteq> [])"
  proof -
    show "(''offset'' \<in> fst ` set (results_params options)) \<longleftrightarrow>
      (\<exists>opts n. options = Some opts \<and> offset opts = Some n)"
      unfolding params
      by (cases options; cases "limit (the options)"; cases "offset (the options)";
          cases "results_status (the options)") auto
    show "(''limit'' \<in> fst ` set (results_params options)) \<longleftrightarrow>
      (\<exists>opts l. options = Some opts \<and> limit opts = Some l \<and> l \<noteq> 0)"
      unfolding params
      by (cases options; cases "limit (the options)"; cases "offset (the options)";
          cases "results_status (the options)") auto
    show "(''status'' \<in> fst ` set (results_params options)) \<longleftrightarrow>
      (\<exists>opts s. options = Some opts \<and> results_status opts = Some s \<and> s \<noteq> [])"
      unfolding params
      by (cases options; cases "limit (the options)"; cases "offset (the options)";
          cases "results_status (the options)") auto
  qed
  from params path keys show ?thesis by blast
qed

theorem results_query_string_witness:
  "getBulkJobResults (test_client 3) (scripted [] (Rejected Abort) (\<lambda>k. 0) :: unit world) ''job_123''
     (Some \<lparr>limit = Some 50, offset = Some 0, results_status = Some ''valid''\<rparr>) [] =
     request (test_client 3) (scripted [] (Rejected Abort) (\<lambda>k. 0) :: unit world) ''GET'' ''/verify/bulk/job_123/results?limit=50&offset=0&status=valid''
       None 1 [] \<and>
   getBulkJobResults (test_client 3) (scripted [] (Rejected Abort) (\<lambda>k. 0) :: unit world) ''job_123''
     (Some \<lparr>limit = Some 0, offset = Some 0, results_status = Some []\<rparr>) [] =
     request (test_client 3) (scripted [] (Rejected Abort) (\<lambda>k. 0) :: unit world) ''GET'' ''/verify/bulk/job_123/results?offset=0'' None 1 [] \<and>
   getBulkJobResults (test_client 3) (scripted [] (Rejected Abort) (\<lambda>k. 0) :: unit world) ''job_123'' None [] =
     request (test_client 3) (scripted [] (Rejected Abort) (\<lambda>k. 0) :: unit world) ''GET'' ''/verify/bulk/job_123/results'' None 1 []"
proof -
  let ?w = "scripted [] (Rejected Abort) (\<lambda>k. 0) :: unit world"
  note q = results_query_string [of _ "test_client 3" ?w "''job_123''" "[]"]
  have d: "show_int 50 = ''50''" "show_int 0 = ''0''"
    by (simp_all add: show_int_def show_nat.simps)
  have e: "urlencode ''limit'' = ''limit''" "urlencode ''offset'' = ''offset''"
    "urlencode ''status'' = ''status''" "urlencode ''50'' = ''50''" "urlencode ''0'' = ''0''"
    "urlencode ''valid'' = ''valid''"
    by (simp_all add: urlencode_def urlencode_byte_def)
  from q [of "Some \<lparr>limit = Some 50, offset = Some 0, results_status = Some ''valid''\<rparr>"]
  have 1: "getBulkJobResults (test_client 3) ?w ''job_123''
     (Some \<lparr>limit = Some 50, offset = Some 0, results_status = Some ''valid''\<rparr>) [] =
     request (test_client 3) ?w ''GET'' ''/verify/bulk/job_123/results?limit=50&offset=0&status=valid''
       None 1 []"
    by (simp add: d e)
  from q [of "Some \<lparr>limit = Some 0, offset = Some 0, results_status = Some []\<rparr>"]
  have 2: "getBulkJobResults (test_client 3) ?w ''job_123''
     (Some \<lparr>limit = Some 0, offset = Some 0, results_status = Some []\<rparr>) [] =
     request (test_client 3) ?w ''GET'' ''/verify/bulk/job_123/results?offset=0'' None 1 []"
    by (simp add: d e)
  from q [of None]
  have 3: "getBulkJobResults (test_client 3) ?w ''job_123'' None [] =
     request (test_client 3) ?w ''GET'' ''/verify/bulk/job_123/results'' None 1 []"
    by simp
  from 1 2 3 show ?thesis by blast
qed

section \<open>Webhook signatures\<close>

text \<open>
  C2. With Node's \<open>timingSafeEqual\<close>, for every HMAC function, payload, signature
  and secret, \<open>verifyWebhookSignature\<close> returns a boolean (\<open>Inr\<close>: it does not
  throw), and the boolean says whether the signature is \<open>sha256=\<close> followed by the
  lower-case hexadecimal digest of the payload under the secret.
\<close>

theorem signature_check_is_equality:
  "verifyWebhookSignature (node_crypto hmac) payload signature secret =
     Inr (signature = ''sha256='' @ hex (hmac secret payload))"
  by (auto simp add: verifyWebhookSignature_def node_crypto_def node_timingSafeEqual_def
      Buffer_from_def Let_def)

theorem signature_check_is_equality_witness:
  "verifyWebhookSignature (node_crypto test_hmac) test_payload
     ''sha256=ad386d9a61a0540a089d2955a07280771439f9f8c41a4b94cd404a740061c3d9''
     ''test-secret'' = Inr True \<and>
   verifyWebhookSignature (node_crypto test_hmac) test_payload ''sha256=invalid''
     ''test-secret'' = Inr False"
proof -
  have h: "hex (test_hmac ''test-secret'' test_payload) =
      ''ad386d9a61a0540a089d2955a07280771439f9f8c41a4b94cd404a740061c3d9''"
    by (simp add: test_hmac_def hex_def hex_byte_def test_digest_def)
  from signature_check_is_equality [of test_hmac test_payload _ "''test-secret''"] h
  show ?thesis by simp
qed

text \<open>
  C3. \<open>verifyWebhookSignature\<close> is a function of its arguments: equal arguments,
  equal answers. A signature that differs from the expected one gives false. A signature
  whose length is not the expected one's gives false with any \<open>timingSafeEqual\<close>
  whatever, also one that throws: the answer comes from the comparison of the lengths, and
  the contents are not compared.
\<close>

theorem signature_check_rejects:
  "(payload = payload' \<and> signature = signature' \<and> secret = secret' \<longrightarrow>
      verifyWebhookSignature crypto payload signature secret =
      verifyWebhookSignature crypto payload' signature' secret') \<and>
   (signature \<noteq> ''sha256='' @ hex (hmac secret payload) \<longrightarrow>
      verifyWebhookSignature (node_crypto hmac) payload signature secret = Inr False) \<and>
   (length signature \<noteq> length (''sha256='' @ hex (hmac_sha256 crypto secret payload)) \<longrightarrow>
      verifyWebhookSignature crypto payload signature secret = Inr False)"
  by (auto simp add: verifyWebhookSignature_def node_crypto_def node_timingSafeEqual_def
      Buffer_from_def Let_def)

theorem signature_check_rejects_witness:
  "verifyWebhookSignature (node_crypto test_hmac) test_payload
     ''sha256=ad386d9a61a0540a089d2955a07280771439f9f8c41a4b94cd404a740061c3d8''
     ''test-secret'' = Inr False \<and>
   verifyWebhookSignature
     \<lparr>hmac_sha256 = test_hmac, timingSafeEqual = (\<lambda>a b. Inl ''not to be called'')\<rparr>
     test_payload ''sha256=invalid'' ''test-secret'' = Inr False"
proof -
  have h: "hex (test_hmac ''test-secret'' test_payload) =
      ''ad386d9a61a0540a089d2955a07280771439f9f8c41a4b94cd404a740061c3d9''"
    by (simp add: test_hmac_def hex_def hex_byte_def test_digest_def)
  note r = signature_check_rejects [of test_payload test_payload _ _ "''test-secret''"
      "''test-secret''" _ test_hmac]
  from r [of "''sha256=ad386d9a61a0540a089d2955a07280771439f9f8c41a4b94cd404a740061c3d8''"
      "''sha256=ad386d9a61a0540a089d2955a07280771439f9f8c41a4b94cd404a740061c3d8''"
      "node_crypto test_hmac"] h
  have 1: "verifyWebhookSignature (node_crypto test_hmac) test_payload
     ''sha256=ad386d9a61a0540a089d2955a07280771439f9f8c41a4b94cd404a740061c3d8''
     ''test-secret'' = Inr False"
    by simp
  from r [of "''sha256=invalid''" "''sha256=invalid''"
      "\<lparr>hmac_sha256 = test_hmac, timingSafeEqual = (\<lambda>a b. Inl ''not to be called'')\<rparr>"] h
  have 2: "verifyWebhookSignature
     \<lparr>hmac_sha256 = test_hmac, timingSafeEqual = (\<lambda>a b. Inl ''not to be called'')\<rparr>
     test_payload ''sha256=invalid'' ''test-secret'' = Inr False"
    by simp
  from 1 2 show ?thesis by blast
qed

section \<open>Rate limits and retries that succeed\<close>

text \<open>
  What \<open>handleErrorResponse\<close> does with status 429: a missing or empty
  \<open>Retry-After\<close> header reads as 0; with an attempt left it sleeps (the header's
  seconds when they are a number other than 0, otherwise \<open>2 ^ attempt\<close>) and
  re-issues the call with the next attempt; with none left it throws a
  \<open>RateLimitError\<close> that carries what was read. An error thrown by the retried call
  is the error of the request.
\<close>

lemma rate_limit_branch:
  assumes "status r = 429"
  shows "(falsy_string (retry_after_header r) \<longrightarrow> retryAfter_of r = Number 0) \<and>
         (int a < retries this \<longrightarrow>
            handleErrorResponse this w r a m p b tr =
              request this w m p b (a + 1)
                (tr @ [Sleep (or_number (retryAfter_of r) (2 ^ a) * 1000)])) \<and>
         (\<not> int a < retries this \<longrightarrow>
            handleErrorResponse this w r a m p b tr =
              (Inl (RateLimitError (Some (error_message r)) (Some (retryAfter_of r))), tr) \<and>
            retryAfter (RateLimitError (Some (error_message r)) (Some (retryAfter_of r))) =
              Some (retryAfter_of r))"
proof -
  have "retryAfter_of r = Number 0" if "falsy_string (retry_after_header r)"
    using that
    by (simp add: retryAfter_of_def or_string_def parseInt_def is_space_def is_digit_def
        digit_value_def)
  moreover have "retryAfter (RateLimitError (Some (error_message r)) (Some (retryAfter_of r))) =
      Some (retryAfter_of r)"
    by (simp add: RateLimitError_def nullish_def)
  ultimately show ?thesis
    using assms by (simp add: handle_429_retry handle_429_exhausted)
qed

lemma retry_failure_is_thrown:
  assumes "fetch w (count_fetches tr) = Resolved r" "\<not> ok r"
    and "handleErrorResponse this w r a m p b
           (tr @ [Fetch (baseUrl this @ p) m (headers_of this) b]) = (Inl e, tr')"
  shows "request this w m p b a tr = (Inl e, tr')"
  using assms by (simp add: request_not_ok)

lemma retry_sleep:
  assumes "status r \<in> {429, 500, 502, 503}" "int a < retries this"
  shows "handleErrorResponse this w r a m p b tr =
         request this w m p b (a + 1)
           (tr @ [Sleep ((if status r = 429 then or_number (retryAfter_of r) (2 ^ a) else 2 ^ a) * 1000)])"
proof (cases "status r = 429")
  case True
  with assms show ?thesis by (simp add: handle_429_retry)
next
  case False
  with assms have "status r = 500 \<or> status r = 502 \<or> status r = 503" by auto
  with assms False show ?thesis by (simp add: handle_5xx_retry)
qed

text \<open>
  C4. \<open>handleErrorResponse\<close> returns what the retried call returns, but
  \<open>request\<close> awaits it without returning that value. So when a response with status
  429 (or 500, 502, 503) is retried and the retried call returns a result, the request
  goes on to the end of its \<open>try\<close> block with the response that failed: it reads
  that body a second time and returns or throws what this gives. The result of the retried
  call is dropped. With \<open>fetch\<close> a body is read once, so the request throws the
  base error with code \<open>NETWORK_ERROR\<close>. The example also shows a
  \<open>Retry-After\<close> header that holds a date: it is read as \<open>NaN\<close>, not 0, and
  the \<open>RateLimitError\<close> carries \<open>NaN\<close>.
\<close>

theorem retry_result_is_discarded:
  assumes "fetch w (count_fetches tr) = Resolved r"
    and "status r \<in> {429, 500, 502, 503}"
    and "int a < retries this"
    and "request this w m p b (a + 1)
           (tr @ [Fetch (baseUrl this @ p) m (headers_of this) b,
                  Sleep ((if status r = 429 then or_number (retryAfter_of r) (2 ^ a) else 2 ^ a) * 1000)]) =
         (Inr v, tr')"
  shows "request this w m p b a tr = (read_result this r (json_again r), tr')"
  using assms
  by (simp add: request_not_ok retryable_not_ok retry_sleep)

theorem retry_result_is_discarded_witness:
  "request (test_client 3)
     (scripted
        [Resolved (reply 429 ''Too Many Requests'' (Some ''1'')
           (api_error ''RATE_LIMIT_EXCEEDED'' ''Rate limit exceeded'')),
         Resolved (reply 200 ''OK'' None (Data ''valid''))]
        (Rejected Abort) (\<lambda>k. 0))
     ''POST'' ''/verify'' (Some (VerifyBody ''test@example.com'' True None)) 1 [] =
   (Inl (EmailVerifyError ''Network error: Body is unusable: Body has already been read''
           ''NETWORK_ERROR'' 0 None),
    [Fetch ''https://api.emailverify.ai/v1/verify'' ''POST'' (headers_of (test_client 3))
       (Some (VerifyBody ''test@example.com'' True None)),
     Sleep 1000,
     Fetch ''https://api.emailverify.ai/v1/verify'' ''POST'' (headers_of (test_client 3))
       (Some (VerifyBody ''test@example.com'' True None))]) \<and>
   request (test_client 1)
     (scripted []
        (Resolved (reply 429 ''Too Many Requests'' (Some ''Wed, 21 Oct 2015 07:28:00 GMT'')
           (api_error ''RATE_LIMIT_EXCEEDED'' ''Rate limit exceeded'')))
        (\<lambda>k. 0) :: string world)
     ''POST'' ''/verify'' (Some (VerifyBody ''test@example.com'' True None)) 1 [] =
   (Inl (RateLimitError (Some ''Rate limit exceeded'') (Some NaN)),
    [Fetch ''https://api.emailverify.ai/v1/verify'' ''POST'' (headers_of (test_client 1))
       (Some (VerifyBody ''test@example.com'' True None))])"
proof -
  let ?r1 = "reply 429 ''Too Many Requests'' (Some ''1'')
           (api_error ''RATE_LIMIT_EXCEEDED'' ''Rate limit exceeded'') :: string response"
  let ?r2 = "reply 200 ''OK'' None (Data ''valid'') :: string response"
  let ?w = "scripted [Resolved ?r1, Resolved ?r2] (Rejected Abort) (\<lambda>k. 0)"
  let ?b = "Some (VerifyBody ''test@example.com'' True None)"
  let ?call = "Fetch (baseUrl (test_client 3) @ ''/verify'') ''POST'' (headers_of (test_client 3)) ?b"
  have h1: "fetch ?w (count_fetches []) = Resolved ?r1" by (simp add: scripted_def)
  have h2: "status ?r1 \<in> {429, 500, 502, 503}" by simp
  have h3: "int 1 < retries (test_client 3)" by (simp add: test_client_def)
  have ra: "retryAfter_of ?r1 = Number 1"
    by (simp add: retryAfter_of_def or_string_def falsy_string_def parseInt_def
        is_space_def is_digit_def digit_value_def)
  have ms: "(if status ?r1 = 429 then or_number (retryAfter_of ?r1) (2 ^ 1) else 2 ^ 1) * 1000 = 1000"
    by (simp add: ra or_number_def)
  have "fetch ?w (count_fetches ([] @ [?call, Sleep 1000])) = Resolved ?r2"
    by (simp add: scripted_def)
  moreover have "ok ?r2" by (simp add: ok_def)
  ultimately have h4: "request (test_client 3) ?w ''POST'' ''/verify'' ?b (1 + 1)
      ([] @ [?call, Sleep ((if status ?r1 = 429 then or_number (retryAfter_of ?r1) (2 ^ 1)
                            else 2 ^ 1) * 1000)]) =
      (Inr (Some (Data ''valid'')), ([] @ [?call, Sleep 1000]) @ [?call])"
    unfolding ms by (simp add: request_ok read_result_def del: count_fetches_simps count_fetches_append)
  from retry_result_is_discarded [OF h1 h2 h3 h4]
  have lost: "request (test_client 3) ?w ''POST'' ''/verify'' ?b 1 [] =
     (Inl (EmailVerifyError ''Network error: Body is unusable: Body has already been read''
             ''NETWORK_ERROR'' 0 None),
      [Fetch ''https://api.emailverify.ai/v1/verify'' ''POST'' (headers_of (test_client 3)) ?b,
       Sleep 1000,
       Fetch ''https://api.emailverify.ai/v1/verify'' ''POST'' (headers_of (test_client 3)) ?b])"
    by (simp add: read_result_def catch_block_def test_client_def)
  let ?r3 = "reply 429 ''Too Many Requests'' (Some ''Wed, 21 Oct 2015 07:28:00 GMT'')
           (api_error ''RATE_LIMIT_EXCEEDED'' ''Rate limit exceeded'') :: string response"
  let ?w3 = "scripted [] (Resolved ?r3) (\<lambda>k. 0)"
  have "fetch ?w3 (count_fetches []) = Resolved ?r3" by (simp add: scripted_def)
  moreover have "status ?r3 \<in> {429, 500, 502, 503}" by simp
  moreover have "\<not> int 1 < retries (test_client 1)" by (simp add: test_client_def)
  ultimately have "request (test_client 1) ?w3 ''POST'' ''/verify'' ?b 1 [] =
     (Inl (if status ?r3 = 429
           then RateLimitError (Some (error_message ?r3)) (Some (retryAfter_of ?r3))
           else EmailVerifyError (error_message ?r3) (error_code ?r3) (status ?r3) None),
      [] @ [Fetch (baseUrl (test_client 1) @ ''/verify'') ''POST'' (headers_of (test_client 1)) ?b])"
    by (rule last_attempt)
  moreover have "retryAfter_of ?r3 = NaN"
    by (simp add: retryAfter_of_def or_string_def falsy_string_def parseInt_def
        is_space_def is_digit_def)
  moreover have "error_message ?r3 = ''Rate limit exceeded''"
    by (simp add: api_error_def error_message_def errorData_error_def or_string_def
        falsy_string_def)
  ultimately have nan: "request (test_client 1) ?w3 ''POST'' ''/verify'' ?b 1 [] =
     (Inl (RateLimitError (Some ''Rate limit exceeded'') (Some NaN)),
      [Fetch ''https://api.emailverify.ai/v1/verify'' ''POST'' (headers_of (test_client 1)) ?b])"
    by (simp add: test_client_def)
  from lost nan show ?thesis by blast
qed

section \<open>Polling\<close>

lemma poll_turn_snapshot:
  assumes "fetch w (count_fetches tr) = Resolved r" "ok r" "status r \<noteq> 204"
    "json r = Inr (Data job)"
  shows "poll_turn this w jobId pollInterval tr =
     (let tr1 = tr @ [Fetch (baseUrl this @ ''/verify/bulk/'' @ jobId) ''GET'' (headers_of this) None]
      in if job_state job = Completed \<or> job_state job = Failed then Return (Inr job, tr1)
         else Continue (tr1 @ [Sleep pollInterval]))"
  using assms
  by (simp add: poll_turn_def getBulkJobStatus_def request_ok read_result_def Let_def)

lemma poll_loop_schedule:
  assumes "\<forall>k<n. (\<exists>r. fetch w (count_fetches tr + k) = Resolved r \<and> ok r \<and> status r \<noteq> 204 \<and>
                       json r = Inr (Data (jobs k))) \<and>
                 now w (count_now tr + k) - start < maxWait \<and>
                 job_state (jobs k) \<noteq> Completed \<and> job_state (jobs k) \<noteq> Failed"
  shows "poll_loop this w jobId pollInterval maxWait start tr =
         poll_loop this w jobId pollInterval maxWait start
           (tr @ concat (replicate n
              [DateNow,
               Fetch (baseUrl this @ ''/verify/bulk/'' @ jobId) ''GET'' (headers_of this) None,
               Sleep pollInterval]))"
  using assms
proof (induction n arbitrary: tr jobs)
  case 0
  then show ?case by simp
next
  case (Suc n)
  let ?turn = "[DateNow,
               Fetch (baseUrl this @ ''/verify/bulk/'' @ jobId) ''GET'' (headers_of this) None,
               Sleep pollInterval]"
  from Suc.prems obtain r where r: "fetch w (count_fetches tr) = Resolved r" "ok r"
      "status r \<noteq> 204" "json r = Inr (Data (jobs 0))"
    and t: "now w (count_now tr) - start < maxWait"
    and j: "job_state (jobs 0) \<noteq> Completed" "job_state (jobs 0) \<noteq> Failed"
    by force
  have step: "poll_loop this w jobId pollInterval maxWait start tr =
              poll_loop this w jobId pollInterval maxWait start (tr @ ?turn)"
    using r t j
    by (subst poll_loop.simps) (simp add: poll_turn_snapshot [where r = r and job = "jobs 0"])
  have "\<forall>k<n. (\<exists>r. fetch w (count_fetches (tr @ ?turn) + k) = Resolved r \<and> ok r \<and>
                 status r \<noteq> 204 \<and> json r = Inr (Data (jobs (Suc k)))) \<and>
               now w (count_now (tr @ ?turn) + k) - start < maxWait \<and>
               job_state (jobs (Suc k)) \<noteq> Completed \<and> job_state (jobs (Suc k)) \<noteq> Failed"
    using Suc.prems by (auto dest: spec [where x = "Suc k" for k])
  from Suc.IH [OF this]
  have "poll_loop this w jobId pollInterval maxWait start (tr @ ?turn) =
        poll_loop this w jobId pollInterval maxWait start
          ((tr @ ?turn) @ concat (replicate n ?turn))" .
  moreover have "(tr @ ?turn) @ concat (replicate n ?turn) = tr @ concat (replicate (Suc n) ?turn)"
    by simp
  ultimately show ?case using step by metis
qed

lemma count_turns [simp]:
  "count_now (concat (replicate n [DateNow, Fetch u m h b, Sleep ms])) = n"
  "count_fetches (concat (replicate n [DateNow, Fetch u m h b, Sleep ms])) = n"
  by (induction n) simp_all

text \<open>
  C7. The service answers the first \<open>n\<close> status requests with snapshots that are
  neither completed nor failed, and before each of them the clock reads less than
  \<open>maxWait\<close> after the start. If the clock still reads less than \<open>maxWait\<close>
  before the next poll and that poll sees a completed or failed snapshot, the call returns
  this snapshot, and the trace ends with that poll: nothing is polled afterwards. If
  instead the clock then reads \<open>maxWait\<close> or more after the start, the call throws a
  \<open>TimeoutError\<close> without polling again. In both cases every earlier poll is
  followed by one sleep of \<open>pollInterval\<close>. The elapsed time is what the loop reads
  from the clock before each poll.
\<close>

theorem polling_stops_at_the_first_final_state:
  assumes "\<forall>k<n.
      (\<exists>r. fetch w k = Resolved r \<and> ok r \<and> status r \<noteq> 204 \<and> json r = Inr (Data (jobs k))) \<and>
      now w (Suc k) - now w 0 < nullish maxWait 600000 \<and>
      job_state (jobs k) \<noteq> Completed \<and> job_state (jobs k) \<noteq> Failed"
  shows "(now w (Suc n) - now w 0 < nullish maxWait 600000 \<and>
          (\<exists>r. fetch w n = Resolved r \<and> ok r \<and> status r \<noteq> 204 \<and> json r = Inr (Data job)) \<and>
          (job_state job = Completed \<or> job_state job = Failed) \<longrightarrow>
          waitForBulkJobCompletion this w jobId pollInterval maxWait [] =
            Some (Inr job,
                  DateNow # concat (replicate n
                    [DateNow,
                     Fetch (baseUrl this @ ''/verify/bulk/'' @ jobId) ''GET'' (headers_of this) None,
                     Sleep (nullish pollInterval 5000)]) @
                  [DateNow,
                   Fetch (baseUrl this @ ''/verify/bulk/'' @ jobId) ''GET'' (headers_of this) None]))
       \<and>
         (\<not> now w (Suc n) - now w 0 < nullish maxWait 600000 \<longrightarrow>
          waitForBulkJobCompletion this w jobId pollInterval maxWait [] =
            Some (Inl (Taxonomy (TimeoutError (Some (''Bulk job '' @ jobId @
                    '' did not complete within '' @ show_int (nullish maxWait 600000) @ ''ms'')))),
                  DateNow # concat (replicate n
                    [DateNow,
                     Fetch (baseUrl this @ ''/verify/bulk/'' @ jobId) ''GET'' (headers_of this) None,
                     Sleep (nullish pollInterval 5000)]) @
                  [DateNow]) \<and>
          name (TimeoutError (Some (''Bulk job '' @ jobId @
                    '' did not complete within '' @ show_int (nullish maxWait 600000) @ ''ms''))) =
            TimeoutErrorName)"
proof -
  let ?p = "nullish pollInterval 5000" and ?mw = "nullish maxWait 600000"
  let ?poll = "Fetch (baseUrl this @ ''/verify/bulk/'' @ jobId) ''GET'' (headers_of this) None"
  let ?turns = "concat (replicate n [DateNow, ?poll, Sleep ?p])"
  have "\<forall>k<n. (\<exists>r. fetch w (count_fetches [DateNow] + k) = Resolved r \<and> ok r \<and>
                  status r \<noteq> 204 \<and> json r = Inr (Data (jobs k))) \<and>
               now w (count_now [DateNow] + k) - now w 0 < ?mw \<and>
               job_state (jobs k) \<noteq> Completed \<and> job_state (jobs k) \<noteq> Failed"
    using assms by simp
  from poll_loop_schedule [OF this, of this jobId ?p]
  have run: "waitForBulkJobCompletion this w jobId pollInterval maxWait [] =
             poll_loop this w jobId ?p ?mw (now w 0) ([DateNow] @ ?turns)"
    by (simp add: waitForBulkJobCompletion_def)
  have A: "waitForBulkJobCompletion this w jobId pollInterval maxWait [] =
           Some (Inr job, DateNow # ?turns @ [DateNow, ?poll])"
    if "now w (Suc n) - now w 0 < ?mw"
      and "fetch w n = Resolved r" "ok r" "status r \<noteq> 204" "json r = Inr (Data job)"
      and "job_state job = Completed \<or> job_state job = Failed" for r
    unfolding run using that
    by (subst poll_loop.simps)
       (simp add: poll_turn_snapshot [where r = r and job = job])
  have B: "waitForBulkJobCompletion this w jobId pollInterval maxWait [] =
           Some (Inl (Taxonomy (TimeoutError (Some (''Bulk job '' @ jobId @
                   '' did not complete within '' @ show_int ?mw @ ''ms'')))),
                 DateNow # ?turns @ [DateNow])"
    if "\<not> now w (Suc n) - now w 0 < ?mw"
    unfolding run using that
    by (subst poll_loop.simps) simp
  have kind: "name (TimeoutError (Some (''Bulk job '' @ jobId @
                    '' did not complete within '' @ show_int ?mw @ ''ms''))) = TimeoutErrorName"
    by (simp add: TimeoutError_def)
  show ?thesis
    using A B kind by blast
qed

theorem polling_stops_at_the_first_final_state_witness:
  "waitForBulkJobCompletion (test_client 3)
     (scripted [Resolved (reply 200 ''OK'' None (Data (test_job Processing))),
                Resolved (reply 200 ''OK'' None (Data (test_job Completed)))]
        (Rejected Abort) (\<lambda>k. 5000 * int k))
     ''job_123'' None None [] =
   Some (Inr (test_job Completed),
         [DateNow,
          DateNow,
          Fetch ''https://api.emailverify.ai/v1/verify/bulk/job_123'' ''GET''
            (headers_of (test_client 3)) None,
          Sleep 5000,
          DateNow,
          Fetch ''https://api.emailverify.ai/v1/verify/bulk/job_123'' ''GET''
            (headers_of (test_client 3)) None]) \<and>
   waitForBulkJobCompletion (test_client 3)
     (scripted [] (Resolved (reply 200 ''OK'' None (Data (test_job Processing))))
        (\<lambda>k. 5000 * int k))
     ''job_123'' (Some 5000) (Some 10000) [] =
   Some (Inl (Taxonomy (TimeoutError (Some ''Bulk job job_123 did not complete within 10000ms''))),
         [DateNow,
          DateNow,
          Fetch ''https://api.emailverify.ai/v1/verify/bulk/job_123'' ''GET''
            (headers_of (test_client 3)) None,
          Sleep 5000,
          DateNow])"
proof -
  let ?running = "reply 200 ''OK'' None (Data (test_job Processing))"
  let ?done = "reply 200 ''OK'' None (Data (test_job Completed))"
  let ?w1 = "scripted [Resolved ?running, Resolved ?done] (Rejected Abort) (\<lambda>k. 5000 * int k)"
  let ?w2 = "scripted [] (Resolved ?running) (\<lambda>k. 5000 * int k)"
  have b1: "\<forall>k<1.
      (\<exists>r. fetch ?w1 k = Resolved r \<and> ok r \<and> status r \<noteq> 204 \<and>
           json r = Inr (Data (test_job Processing))) \<and>
      now ?w1 (Suc k) - now ?w1 0 < nullish None 600000 \<and>
      job_state (test_job Processing) \<noteq> Completed \<and> job_state (test_job Processing) \<noteq> Failed"
    by (simp add: scripted_def ok_def nullish_def test_job_def)
  have b2: "\<forall>k<1.
      (\<exists>r. fetch ?w2 k = Resolved r \<and> ok r \<and> status r \<noteq> 204 \<and>
           json r = Inr (Data (test_job Processing))) \<and>
      now ?w2 (Suc k) - now ?w2 0 < nullish (Some 10000) 600000 \<and>
      job_state (test_job Processing) \<noteq> Completed \<and> job_state (test_job Processing) \<noteq> Failed"
    by (simp add: scripted_def ok_def nullish_def test_job_def)
  have ten: "show_int 10000 = ''10000''"
    by (simp add: show_int_def show_nat.simps)
  from polling_stops_at_the_first_final_state [of 1 ?w1 "\<lambda>k. test_job Processing" None
      "test_job Completed" "test_client 3" "''job_123''" None, OF b1]
  have 1: "waitForBulkJobCompletion (test_client 3) ?w1 ''job_123'' None None [] =
   Some (Inr (test_job Completed),
         [DateNow,
          DateNow,
          Fetch ''https://api.emailverify.ai/v1/verify/bulk/job_123'' ''GET''
            (headers_of (test_client 3)) None,
          Sleep 5000,
          DateNow,
          Fetch ''https://api.emailverify.ai/v1/verify/bulk/job_123'' ''GET''
            (headers_of (test_client 3)) None])"
    by (simp add: scripted_def ok_def nullish_def test_job_def test_client_def)
  from polling_stops_at_the_first_final_state [of 1 ?w2 "\<lambda>k. test_job Processing" "Some 10000"
      "test_job Completed" "test_client 3" "''job_123''" "Some 5000", OF b2]
  have 2: "waitForBulkJobCompletion (test_client 3) ?w2 ''job_123'' (Some 5000) (Some 10000) [] =
   Some (Inl (Taxonomy (TimeoutError (Some ''Bulk job job_123 did not complete within 10000ms''))),
         [DateNow,
          DateNow,
          Fetch ''https://api.emailverify.ai/v1/verify/bulk/job_123'' ''GET''
            (headers_of (test_client 3)) None,
          Sleep 5000,
          DateNow])"
    by (simp add: scripted_def nullish_def test_client_def ten)
  from 1 2 show ?thesis by blast
qed

end
